theory Spec2Isabelle
  imports Complex_Main "HOL-Library.Word"
begin

section \<open>JavaScript values\<close>

text \<open>
  A number is an IEEE double: not-a-number, an infinity, or a finite value, held here as
  the rational it denotes (the two zeros are one value: they are strictly equal and both
  falsy). \<^verbatim>\<open>JSON.parse\<close> never yields \<^verbatim>\<open>NaN\<close>; \<^verbatim>\<open>parseInt\<close> does.
\<close>

datatype number = NaN | Infinity | NegInfinity | Finite rat

text \<open>
  The values that \<^verbatim>\<open>bodyParser.json()\<close> produces. A string is held as its bytes; only
  equality and emptiness of strings are ever used.
\<close>

datatype json =
    JNull
  | JBool bool
  | JNum number
  | JStr string
  | JArr "json list"
  | JObj "(string \<times> json) list"

abbreviation JInt :: "int \<Rightarrow> json" where
  "JInt n \<equiv> JNum (Finite (of_int n))"

text \<open>
  An object of the directory or of a request: its own properties, and its prototype. A
  parsed body inherits from \<^verbatim>\<open>Object.prototype\<close> (from \<^verbatim>\<open>Array.prototype\<close> when it is an
  array, whose own enumerable properties are its indices). An assignment to
  \<^verbatim>\<open>__proto__\<close> can make an object inherit from nothing, or from an object or array that
  came with a body.
\<close>

datatype prototype = Object_prototype | Array_prototype | Null_prototype | Inherits json

record object =
  own :: "string \<rightharpoonup> json"
  proto :: prototype

text \<open>
  The property read \<^verbatim>\<open>o.k\<close> for the keys that the handlers read, \<^verbatim>\<open>id\<close> and
  \<^verbatim>\<open>name\<close>: the own property, else the property of the prototype. The built-in
  prototypes and arrays have no property of these names; an absent property reads as
  \<^verbatim>\<open>undefined\<close>, which is \<open>None\<close>.
\<close>

definition get_property :: "object \<Rightarrow> string \<Rightarrow> json option" where
  "get_property obj k =
     (case own obj k of
        Some v \<Rightarrow> Some v
      | None \<Rightarrow> (case proto obj of Inherits (JObj kvs) \<Rightarrow> map_of kvs k | _ \<Rightarrow> None))"

text \<open>JavaScript's \<^verbatim>\<open>ToBoolean\<close>, as used by \<^verbatim>\<open>&&\<close> and \<^verbatim>\<open>!\<close>.\<close>

fun truthy :: "json option \<Rightarrow> bool" where
  "truthy None = False"
| "truthy (Some JNull) = False"
| "truthy (Some (JBool b)) = b"
| "truthy (Some (JNum NaN)) = False"
| "truthy (Some (JNum (Finite q))) = (q \<noteq> 0)"
| "truthy (Some (JNum x)) = True"
| "truthy (Some (JStr s)) = (s \<noteq> [])"
| "truthy (Some (JArr xs)) = True"
| "truthy (Some (JObj kvs)) = True"

text \<open>
  Strict equality \<^verbatim>\<open>===\<close> between a value read from the body of the current request and
  a value read from a record of the directory. Primitives compare by type and value, and
  \<^verbatim>\<open>NaN\<close> equals nothing. Arrays and objects compare by reference, and the body of a
  request is parsed afresh, so an array or object in it is never one that a record holds.
\<close>

fun strict_equals :: "json option \<Rightarrow> json option \<Rightarrow> bool" where
  "strict_equals None None = True"
| "strict_equals (Some JNull) (Some JNull) = True"
| "strict_equals (Some (JBool a)) (Some (JBool b)) = (a = b)"
| "strict_equals (Some (JNum a)) (Some (JNum b)) = (a = b \<and> a \<noteq> NaN)"
| "strict_equals (Some (JStr a)) (Some (JStr b)) = (a = b)"
| "strict_equals x y = False"

text \<open>\<^verbatim>\<open>===\<close> between a value read from a record and a number.\<close>

fun strict_equals_number :: "json option \<Rightarrow> number \<Rightarrow> bool" where
  "strict_equals_number (Some (JNum a)) b = (a = b \<and> a \<noteq> NaN)"
| "strict_equals_number x y = False"

subsection \<open>\<^verbatim>\<open>parseInt\<close> with no radix\<close>

text \<open>
  The argument is a JavaScript string, a sequence of UTF-16 code units (\<^verbatim>\<open>req.params.id\<close>
  is the decoded path segment). \<open>utf16\<close> gives the code units of an ASCII string.
\<close>

type_synonym code_unit = "16 word"

definition utf16 :: "string \<Rightarrow> code_unit list" where
  "utf16 s = map of_char s"

text \<open>
  ECMAScript's white space and line terminators: TAB, LF, VT, FF, CR, SP, NBSP, U+1680,
  U+2000 to U+200A, U+2028, U+2029, U+202F, U+205F, U+3000 and U+FEFF.
\<close>

definition is_white_space :: "code_unit \<Rightarrow> bool" where
  "is_white_space c =
     (c \<in> set [0x09, 0x0A, 0x0B, 0x0C, 0x0D, 0x20, 0xA0, 0x1680, 0x2028, 0x2029, 0x202F,
               0x205F, 0x3000, 0xFEFF]
      \<or> (0x2000 \<le> c \<and> c \<le> 0x200A))"

text \<open>The value of a digit or letter: \<^verbatim>\<open>0\<close> to \<^verbatim>\<open>9\<close>, then \<^verbatim>\<open>a\<close> to \<^verbatim>\<open>z\<close> in either case.\<close>

definition digit_value :: "code_unit \<Rightarrow> int option" where
  "digit_value c =
     (if 48 \<le> c \<and> c \<le> 57 then Some (uint c - 48)
      else if 97 \<le> c \<and> c \<le> 122 then Some (uint c - 87)
      else if 65 \<le> c \<and> c \<le> 90 then Some (uint c - 55)
      else None)"

definition is_digit :: "int \<Rightarrow> code_unit \<Rightarrow> bool" where
  "is_digit R c = (case digit_value c of None \<Rightarrow> False | Some d \<Rightarrow> d < R)"

definition digits_value :: "int \<Rightarrow> code_unit list \<Rightarrow> int" where
  "digits_value R Z =
     foldl (\<lambda>acc c. case digit_value c of None \<Rightarrow> acc | Some d \<Rightarrow> acc * R + d) 0 Z"

text \<open>
  The conversion of a natural number to a double: below \<open>2 ^ 53\<close> it is exact; above, the
  number keeps its 53 leading bits, rounded to nearest with ties to even; a result of
  \<open>2 ^ 1024\<close> or more is infinite (\<open>None\<close>).
\<close>

fun bit_length :: "int \<Rightarrow> nat" where
  "bit_length n = (if n \<le> 0 then 0 else Suc (bit_length (n div 2)))"

declare bit_length.simps [simp del]

definition round_to_double :: "int \<Rightarrow> int option" where
  "round_to_double m =
     (let e = bit_length m - 53;
          q = m div 2 ^ e;
          r = m mod 2 ^ e;
          q' = (if 2 ^ e < 2 * r \<or> (2 * r = 2 ^ e \<and> odd q) then q + 1 else q);
          d = q' * 2 ^ e
      in if d < 2 ^ 1024 then Some d else None)"

text \<open>
  \<^verbatim>\<open>parseInt(string)\<close>: leading white space is skipped, one sign is read, a prefix
  \<^verbatim>\<open>0x\<close> or \<^verbatim>\<open>0X\<close> selects radix 16 (radix 10 otherwise), and the longest run of digits
  of that radix is read. With no digit the result is \<^verbatim>\<open>NaN\<close>, else the value of the
  digits as a double with the sign.
\<close>

definition parseInt_sign :: "code_unit list \<Rightarrow> int" where
  "parseInt_sign S = (case S of c # _ \<Rightarrow> if c = 45 then - 1 else 1 | [] \<Rightarrow> 1)"

definition strip_sign :: "code_unit list \<Rightarrow> code_unit list" where
  "strip_sign S = (case S of c # r \<Rightarrow> if c = 45 \<or> c = 43 then r else S | [] \<Rightarrow> S)"

definition hex_prefix :: "code_unit list \<Rightarrow> bool" where
  "hex_prefix S = (case S of a # b # _ \<Rightarrow> a = 48 \<and> (b = 120 \<or> b = 88) | _ \<Rightarrow> False)"

definition parseInt_digits :: "code_unit list \<Rightarrow> code_unit list" where
  "parseInt_digits inputString =
     (let S = strip_sign (dropWhile is_white_space inputString)
      in if hex_prefix S then takeWhile (is_digit 16) (drop 2 S) else takeWhile (is_digit 10) S)"

definition parseInt :: "code_unit list \<Rightarrow> number" where
  "parseInt inputString =
     (let S = dropWhile is_white_space inputString;
          sign = parseInt_sign S;
          R = (if hex_prefix (strip_sign S) then 16 else 10);
          Z = parseInt_digits inputString
      in if Z = [] then NaN
         else (case round_to_double (digits_value R Z) of
                 None \<Rightarrow> if sign < 0 then NegInfinity else Infinity
               | Some d \<Rightarrow> Finite (of_int (sign * d))))"

subsection \<open>\<^verbatim>\<open>Array.prototype.find\<close> and \<^verbatim>\<open>Object.assign\<close>\<close>

text \<open>
  \<^verbatim>\<open>find\<close> returns a reference to the first element that satisfies the predicate, or
  \<^verbatim>\<open>undefined\<close>. The elements of the directory are distinct objects (the literal of the
  seed, and one freshly parsed body for each \<^verbatim>\<open>push\<close>), so the reference is the
  position in the array together with the element there.
\<close>

fun array_find :: "('a \<Rightarrow> bool) \<Rightarrow> 'a list \<Rightarrow> (nat \<times> 'a) option" where
  "array_find P [] = None"
| "array_find P (x # xs) =
     (if P x then Some (0, x)
      else (case array_find P xs of None \<Rightarrow> None | Some (i, y) \<Rightarrow> Some (Suc i, y)))"

text \<open>
  The setter of the accessor \<^verbatim>\<open>Object.prototype.__proto__\<close>: an object or array becomes
  the prototype, \<^verbatim>\<open>null\<close> removes the prototype, and any other value is ignored.
\<close>

fun set_prototype :: "object \<Rightarrow> json \<Rightarrow> object" where
  "set_prototype obj (JObj kvs) = obj\<lparr>proto := Inherits (JObj kvs)\<rparr>"
| "set_prototype obj (JArr xs) = obj\<lparr>proto := Inherits (JArr xs)\<rparr>"
| "set_prototype obj JNull = obj\<lparr>proto := Null_prototype\<rparr>"
| "set_prototype obj v = obj"

text \<open>
  The assignment \<^verbatim>\<open>target["__proto__"] = v\<close>. An own property of that name is
  overwritten. Otherwise the prototype chain decides: with no prototype, or with a
  prototype from a body that has a property of that name, the target gets an own property;
  in every other case the chain ends in the accessor of \<^verbatim>\<open>Object.prototype\<close> and its
  setter runs.
\<close>

definition assign_proto_key :: "object \<Rightarrow> json \<Rightarrow> object" where
  "assign_proto_key target v =
     (if own target ''__proto__'' \<noteq> None then target\<lparr>own := (own target)(''__proto__'' \<mapsto> v)\<rparr>
      else (case proto target of
              Null_prototype \<Rightarrow> target\<lparr>own := (own target)(''__proto__'' \<mapsto> v)\<rparr>
            | Inherits (JObj kvs) \<Rightarrow>
                if map_of kvs ''__proto__'' \<noteq> None
                then target\<lparr>own := (own target)(''__proto__'' \<mapsto> v)\<rparr>
                else set_prototype target v
            | _ \<Rightarrow> set_prototype target v))"

text \<open>
  \<^verbatim>\<open>Object.assign(target, source)\<close> assigns every own enumerable property of the source
  to the target and returns the target. Every key but \<^verbatim>\<open>__proto__\<close> becomes an own
  property of the target (all properties that a record can inherit under another name are
  writable data properties); the assignments to different keys do not depend on each other.
\<close>

definition Object_assign :: "object \<Rightarrow> object \<Rightarrow> object" where
  "Object_assign target source =
     (let t = target\<lparr>own := own target ++ (own source)(''__proto__'' := None)\<rparr>
      in case own source ''__proto__'' of None \<Rightarrow> t | Some v \<Rightarrow> assign_proto_key t v)"

section \<open>The server\<close>

text \<open>
  \<^verbatim>\<open>healthData\<close>, the object acting as a database, with its one user at the start
  (the same literal in both source files).
\<close>

record healthData =
  users :: "object list"

definition seed_user :: object where
  "seed_user =
     \<lparr>own = [''id'' \<mapsto> JInt 1, ''name'' \<mapsto> JStr ''John Doe'', ''age'' \<mapsto> JInt 30,
             ''weight'' \<mapsto> JInt 75, ''height'' \<mapsto> JInt 180],
      proto = Object_prototype\<rparr>"

definition healthData_initial :: healthData where
  "healthData_initial = \<lparr>users = [seed_user]\<rparr>"

text \<open>
  What a handler does to \<^verbatim>\<open>res\<close>: the calls that send, in order, each with the status set
  for it (200 when none is set) and what is sent. \<^verbatim>\<open>Send_undefined\<close> is
  \<^verbatim>\<open>res.send(undefined)\<close>. An object is sent as the JSON text of its own properties.
\<close>

datatype payload = Send_object object | Send_array "object list" | Send_undefined

record res_call =
  status :: nat
  sent :: payload

definition error_object :: "string \<Rightarrow> object" where
  "error_object msg = \<lparr>own = [''error'' \<mapsto> JStr msg], proto = Object_prototype\<rparr>"

definition user_not_found :: res_call where
  "user_not_found = \<lparr>status = 404, sent = Send_object (error_object ''User not found'')\<rparr>"

definition name_cannot_be_changed :: res_call where
  "name_cannot_be_changed =
     \<lparr>status = 400, sent = Send_object (error_object ''User name cannot be changed'')\<rparr>"

text \<open>The client receives the first response that is sent for its request.\<close>

definition delivered :: "res_call list \<Rightarrow> res_call option" where
  "delivered calls = (case calls of [] \<Rightarrow> None | c # _ \<Rightarrow> Some c)"

text \<open>The predicate of both scans, \<^verbatim>\<open>(u) => u.id === userId\<close>.\<close>

definition has_id :: "number \<Rightarrow> object \<Rightarrow> bool" where
  "has_id userId u = strict_equals_number (get_property u ''id'') userId"

subsection \<open>The handlers of the documented server (\<^verbatim>\<open>src/unnamed/part_000\<close>)\<close>

text \<open>
  A handler takes the database, \<^verbatim>\<open>req.params.id\<close> and \<^verbatim>\<open>req.body\<close> where it reads
  them, and returns the database after the request with the calls made on \<^verbatim>\<open>res\<close>.
  \<^verbatim>\<open>req.body\<close> is the object or array that the JSON body parser produced.
\<close>

definition get_users :: "healthData \<Rightarrow> healthData \<times> res_call list" where
  "get_users db = (db, [\<lparr>status = 200, sent = Send_array (users db)\<rparr>])"

definition get_users_id :: "healthData \<Rightarrow> code_unit list \<Rightarrow> healthData \<times> res_call list" where
  "get_users_id db params_id =
     (let userId = parseInt params_id;
          user = array_find (has_id userId) (users db)
      in case user of
           None \<Rightarrow> (db, [user_not_found])
         | Some (i, u) \<Rightarrow> (db, [\<lparr>status = 200, sent = Send_object u\<rparr>]))"

definition post_users :: "healthData \<Rightarrow> object \<Rightarrow> healthData \<times> res_call list" where
  "post_users db newUser =
     (db\<lparr>users := users db @ [newUser]\<rparr>, [\<lparr>status = 201, sent = Send_object newUser\<rparr>])"

definition put_users_id :: "healthData \<Rightarrow> code_unit list \<Rightarrow> object \<Rightarrow> healthData \<times> res_call list" where
  "put_users_id db params_id updatedUser =
     (let userId = parseInt params_id;
          user = array_find (has_id userId) (users db)
      in case user of
           None \<Rightarrow> (db, [user_not_found])
         | Some (i, u) \<Rightarrow>
             if truthy (get_property updatedUser ''name'')
                \<and> \<not> strict_equals (get_property updatedUser ''name'') (get_property u ''name'')
             then (db, [name_cannot_be_changed])
             else
               (let u' = Object_assign u updatedUser
                in (db\<lparr>users := (users db)[i := u']\<rparr>, [\<lparr>status = 200, sent = Send_object u'\<rparr>])))"

subsection \<open>The handlers of \<^verbatim>\<open>src/index.js\<close>\<close>

text \<open>
  \<^verbatim>\<open>src/index.js\<close> registers the same routes. Its handler of \<^verbatim>\<open>GET /users/:id\<close> does
  not return after the 404, and its handler of \<^verbatim>\<open>PUT /users/:id\<close> has no check of the
  name and sends with no status set.
\<close>

definition index_get_users :: "healthData \<Rightarrow> healthData \<times> res_call list" where
  "index_get_users db = (db, [\<lparr>status = 200, sent = Send_array (users db)\<rparr>])"

definition index_get_users_id :: "healthData \<Rightarrow> code_unit list \<Rightarrow> healthData \<times> res_call list" where
  "index_get_users_id db params_id =
     (let userId = parseInt params_id;
          user = array_find (has_id userId) (users db);
          first = (case user of None \<Rightarrow> [user_not_found] | Some (i, u) \<Rightarrow> []);
          second = \<lparr>status = 200,
                    sent = (case user of None \<Rightarrow> Send_undefined | Some (i, u) \<Rightarrow> Send_object u)\<rparr>
      in (db, first @ [second]))"

definition index_post_users :: "healthData \<Rightarrow> object \<Rightarrow> healthData \<times> res_call list" where
  "index_post_users db newUser =
     (db\<lparr>users := users db @ [newUser]\<rparr>, [\<lparr>status = 201, sent = Send_object newUser\<rparr>])"

definition index_put_users_id :: "healthData \<Rightarrow> code_unit list \<Rightarrow> object \<Rightarrow> healthData \<times> res_call list" where
  "index_put_users_id db params_id updatedUser =
     (let userId = parseInt params_id;
          user = array_find (has_id userId) (users db)
      in case user of
           None \<Rightarrow> (db, [user_not_found])
         | Some (i, u) \<Rightarrow>
             (let u' = Object_assign u updatedUser
              in (db\<lparr>users := (users db)[i := u']\<rparr>, [\<lparr>status = 200, sent = Send_object u'\<rparr>])))"

section \<open>Facts about the library functions\<close>

lemmas initial_eval = healthData_initial_def seed_user_def

lemma strict_equals_number_iff:
  "strict_equals_number x y \<longleftrightarrow> (\<exists>a. x = Some (JNum a) \<and> y = a \<and> a \<noteq> NaN)"
  by (cases "(x, y)" rule: strict_equals_number.cases) auto

lemma strict_equals_refl_if_equal:
  "strict_equals (Some v) w \<Longrightarrow> strict_equals (Some v) (Some v)"
  by (cases "(Some v, w)" rule: strict_equals.cases) auto

lemma array_find_None_iff: "array_find P xs = None \<longleftrightarrow> (\<forall>x \<in> set xs. \<not> P x)"
  by (induction xs) (auto split: option.splits)

lemma array_find_Some_iff:
  "array_find P xs = Some (i, x) \<longleftrightarrow>
     i < length xs \<and> xs ! i = x \<and> P x \<and> (\<forall>j < i. \<not> P (xs ! j))"
proof (induction xs arbitrary: i)
  case Nil
  then show ?case by simp
next
  case (Cons y ys)
  show ?case
  proof (cases "P y")
    case True
    then show ?thesis by (cases i) auto
  next
    case False
    show ?thesis
    proof (cases i)
      case 0
      with False show ?thesis by (auto split: option.splits)
    next
      case (Suc k)
      have "(\<forall>j < Suc k. \<not> P ((y # ys) ! j)) \<longleftrightarrow> (\<forall>j < k. \<not> P (ys ! j))"
        using False by (auto simp: less_Suc_eq_0_disj)
      with Suc False Cons.IH [of k] show ?thesis
        by (auto split: option.splits)
    qed
  qed
qed

lemma array_find_first:
  assumes "i < length xs" and "P (xs ! i)" and "\<forall>j < i. \<not> P (xs ! j)"
  shows "array_find P xs = Some (i, xs ! i)"
  using assms by (simp add: array_find_Some_iff)

lemma array_find_cases:
  obtains (absent) "array_find P xs = None" and "\<forall>x \<in> set xs. \<not> P x"
  | (present) i where "i < length xs" and "P (xs ! i)" and "\<forall>j < i. \<not> P (xs ! j)"
      and "array_find P xs = Some (i, xs ! i)"
proof (cases "array_find P xs")
  case None
  then show ?thesis by (intro absent) (simp_all add: array_find_None_iff)
next
  case (Some r)
  obtain i x where "r = (i, x)" by (cases r)
  with Some have "i < length xs" "P (xs ! i)" "\<forall>j < i. \<not> P (xs ! j)"
    "array_find P xs = Some (i, xs ! i)"
    by (auto simp add: array_find_Some_iff)
  then show ?thesis by (rule present)
qed

text \<open>\<^verbatim>\<open>parseInt\<close> yields \<^verbatim>\<open>NaN\<close> exactly when it finds no digit to read.\<close>

lemma parseInt_NaN_iff: "parseInt s = NaN \<longleftrightarrow> parseInt_digits s = []"
  by (simp add: parseInt_def Let_def split: option.splits)


text \<open>\<^verbatim>\<open>Object.assign\<close> on the own properties and on the prototype.\<close>

lemma own_set_prototype: "own (set_prototype t v) = own t"
  by (cases "(t, v)" rule: set_prototype.cases) simp_all

lemma own_assign_proto_key:
  "k \<noteq> ''__proto__'' \<Longrightarrow> own (assign_proto_key t v) k = own t k"
  by (simp add: assign_proto_key_def own_set_prototype split: prototype.splits json.splits)

lemma own_Object_assign:
  assumes "k \<noteq> ''__proto__''"
  shows "own (Object_assign t s) k = (case own s k of None \<Rightarrow> own t k | Some v \<Rightarrow> Some v)"
  using assms
  by (simp add: Object_assign_def Let_def own_assign_proto_key map_add_def split: option.splits)

lemma Object_assign_plain:
  assumes "own s ''__proto__'' = None"
  shows "Object_assign t s = t\<lparr>own := own t ++ own s\<rparr>"
proof -
  have "(own s)(''__proto__'' := None) = own s"
    using assms by (simp add: fun_upd_idem)
  with assms show ?thesis
    by (simp add: Object_assign_def)
qed


lemma get_property_own: "own obj k = Some v \<Longrightarrow> get_property obj k = Some v"
  by (simp add: get_property_def)

lemma get_property_Object_assign:
  assumes "k \<noteq> ''__proto__''" and "own s k = Some v"
  shows "get_property (Object_assign t s) k = Some v"
  using assms by (simp add: get_property_own own_Object_assign)

section \<open>Facts about the handlers\<close>

lemma get_users_id_absent:
  assumes "array_find (has_id (parseInt pid)) (users db) = None"
  shows "get_users_id db pid = (db, [user_not_found])"
  using assms by (simp add: get_users_id_def)


lemma index_get_users_id_absent:
  assumes "array_find (has_id (parseInt pid)) (users db) = None"
  shows "index_get_users_id db pid
    = (db, [user_not_found, \<lparr>status = 200, sent = Send_undefined\<rparr>])"
  using assms by (simp add: index_get_users_id_def)

lemma put_users_id_absent:
  assumes "array_find (has_id (parseInt pid)) (users db) = None"
  shows "put_users_id db pid b = (db, [user_not_found])"
  using assms by (simp add: put_users_id_def)

lemma put_users_id_rejected:
  assumes "array_find (has_id (parseInt pid)) (users db) = Some (i, u)"
    and "truthy (get_property b ''name'')"
    and "\<not> strict_equals (get_property b ''name'') (get_property u ''name'')"
  shows "put_users_id db pid b = (db, [name_cannot_be_changed])"
  using assms by (simp add: put_users_id_def)

lemma put_users_id_merged:
  assumes "array_find (has_id (parseInt pid)) (users db) = Some (i, u)"
    and "\<not> truthy (get_property b ''name'')
      \<or> strict_equals (get_property b ''name'') (get_property u ''name'')"
  shows "put_users_id db pid b
    = (db\<lparr>users := (users db)[i := Object_assign u b]\<rparr>,
       [\<lparr>status = 200, sent = Send_object (Object_assign u b)\<rparr>])"
  using assms by (auto simp add: put_users_id_def Let_def)

lemma index_put_users_id_merged:
  assumes "array_find (has_id (parseInt pid)) (users db) = Some (i, u)"
  shows "index_put_users_id db pid b
    = (db\<lparr>users := (users db)[i := Object_assign u b]\<rparr>,
       [\<lparr>status = 200, sent = Send_object (Object_assign u b)\<rparr>])"
  using assms by (simp add: index_put_users_id_def Let_def)

text \<open>Some path identifiers, parsed.\<close>

lemma parseInt_1: "parseInt (utf16 ''1'') = Finite 1"
  by code_simp

lemma parseInt_2: "parseInt (utf16 ''2'') = Finite 2"
  by code_simp

lemma parseInt_999: "parseInt (utf16 ''999'') = Finite 999"
  by code_simp

lemma parseInt_abc: "parseInt_digits (utf16 ''abc'') = []"
  by code_simp

lemma parseInt_rounds: "parseInt (utf16 ''9007199254740993'') = Finite 9007199254740992"
  by code_simp

lemma parseInt_line_separator: "parseInt (0x2028 # utf16 ''12'') = Finite 12"
  by code_simp

lemma seed_has_id_1: "has_id (Finite 1) seed_user"
  by (simp add: has_id_def get_property_def seed_user_def)

lemma seed_has_no_other_id: "x \<noteq> Finite 1 \<Longrightarrow> \<not> has_id x seed_user"
  by (auto simp add: has_id_def get_property_def seed_user_def)

section \<open>The directory at the start and the list of users\<close>

text \<open>
  C7. On a fresh start the directory holds exactly one record, an ordinary object whose
  fields are \<open>id = 1\<close>, \<open>name = John Doe\<close>, \<open>age = 30\<close>, \<open>weight = 75\<close>,
  \<open>height = 180\<close> and nothing else; listing the users sends that one-element sequence
  with status 200, and listing never changes the database.
\<close>

theorem fresh_start_lists_seed_user:
  "users healthData_initial = [seed_user]
   \<and> proto seed_user = Object_prototype
   \<and> (\<forall>k. own seed_user k =
        (if k = ''id'' then Some (JInt 1)
         else if k = ''name'' then Some (JStr ''John Doe'')
         else if k = ''age'' then Some (JInt 30)
         else if k = ''weight'' then Some (JInt 75)
         else if k = ''height'' then Some (JInt 180)
         else None))
   \<and> get_users healthData_initial
       = (healthData_initial, [\<lparr>status = 200, sent = Send_array [seed_user]\<rparr>])
   \<and> (\<forall>db. fst (get_users db) = db)
   \<and> index_get_users healthData_initial = get_users healthData_initial"
  by (simp add: healthData_initial_def seed_user_def get_users_def index_get_users_def)

section \<open>Creating a user\<close>

text \<open>
  C4. Whatever the body of a create request is, it is appended as it is to the end of the
  directory and sent back with status 201: the directory is one element longer, its old
  elements keep their places, the new last element is the body, and listing the users
  afterwards sends the old records followed by the body. No field, type or id is looked at,
  so the statement has no condition on the body. Both source files agree.
\<close>

theorem post_users_appends_verbatim:
  "(let (db', calls) = post_users db newUser
    in calls = [\<lparr>status = 201, sent = Send_object newUser\<rparr>]
       \<and> length (users db') = Suc (length (users db))
       \<and> take (length (users db)) (users db') = users db
       \<and> users db' ! length (users db) = newUser
       \<and> users db' = users db @ [newUser]
       \<and> snd (get_users db') = [\<lparr>status = 200, sent = Send_array (users db @ [newUser])\<rparr>])
   \<and> index_post_users db newUser = post_users db newUser"
  by (simp add: post_users_def index_post_users_def get_users_def)

section \<open>Getting a user by id\<close>



text \<open>
  An identifier beyond \<open>2 ^ 53\<close> finds the record whose id is the double it rounds to, and
  a Unicode line separator before the digits is skipped.
\<close>

lemma get_users_id_rounded_identifier:
  "get_users_id \<lparr>users = [\<lparr>own = [''id'' \<mapsto> JInt 9007199254740992], proto = Object_prototype\<rparr>]\<rparr>
       (utf16 ''9007199254740993'')
     = (\<lparr>users = [\<lparr>own = [''id'' \<mapsto> JInt 9007199254740992], proto = Object_prototype\<rparr>]\<rparr>,
        [\<lparr>status = 200,
          sent = Send_object \<lparr>own = [''id'' \<mapsto> JInt 9007199254740992], proto = Object_prototype\<rparr>\<rparr>])"
  by (simp add: get_users_id_def Let_def parseInt_rounds has_id_def get_property_def)

lemma get_users_id_line_separator:
  "get_users_id \<lparr>users = [\<lparr>own = [''id'' \<mapsto> JInt 12], proto = Object_prototype\<rparr>]\<rparr>
       (0x2028 # utf16 ''12'')
     = (\<lparr>users = [\<lparr>own = [''id'' \<mapsto> JInt 12], proto = Object_prototype\<rparr>]\<rparr>,
        [\<lparr>status = 200, sent = Send_object \<lparr>own = [''id'' \<mapsto> JInt 12], proto = Object_prototype\<rparr>\<rparr>])"
  by (simp add: get_users_id_def Let_def parseInt_line_separator has_id_def get_property_def)

section \<open>Updating a user\<close>




text \<open>
  C6. An update whose identifier parses to \<^verbatim>\<open>NaN\<close>, or that no record has, answers with
  the 404 error, and one that finds a record but carries a truthy name different from the
  name read from that record answers with the 400 error; in these cases, and whenever the
  one response of an update has status 404 or 400, the database after the request is the
  database before it.
\<close>

theorem put_users_id_failure_keeps_directory:
  "(parseInt pid = NaN \<longrightarrow> put_users_id db pid b = (db, [user_not_found]))
   \<and> ((\<forall>u \<in> set (users db). \<not> has_id (parseInt pid) u)
          \<longrightarrow> put_users_id db pid b = (db, [user_not_found]))
   \<and> (\<forall>i. i < length (users db) \<longrightarrow> has_id (parseInt pid) (users db ! i)
          \<longrightarrow> (\<forall>j < i. \<not> has_id (parseInt pid) (users db ! j))
          \<longrightarrow> truthy (get_property b ''name'')
          \<longrightarrow> \<not> strict_equals (get_property b ''name'') (get_property (users db ! i) ''name'')
          \<longrightarrow> put_users_id db pid b = (db, [name_cannot_be_changed]))
   \<and> (\<forall>db' c. put_users_id db pid b = (db', [c]) \<longrightarrow> status c = 404 \<or> status c = 400
          \<longrightarrow> db' = db)"
proof (intro conjI allI impI)
  assume nan: "parseInt pid = NaN"
  have "\<forall>u \<in> set (users db). \<not> has_id NaN u"
    by (simp add: has_id_def strict_equals_number_iff)
  then have "array_find (has_id NaN) (users db) = None"
    by (simp add: array_find_None_iff)
  with nan show "put_users_id db pid b = (db, [user_not_found])"
    by (simp add: put_users_id_absent)
next
  assume "\<forall>u \<in> set (users db). \<not> has_id (parseInt pid) u"
  then have "array_find (has_id (parseInt pid)) (users db) = None"
    by (simp add: array_find_None_iff)
  then show "put_users_id db pid b = (db, [user_not_found])"
    by (rule put_users_id_absent)
next
  fix i
  assume "i < length (users db)" and "has_id (parseInt pid) (users db ! i)"
    and "\<forall>j < i. \<not> has_id (parseInt pid) (users db ! j)"
  then have "array_find (has_id (parseInt pid)) (users db) = Some (i, users db ! i)"
    by (rule array_find_first)
  moreover assume "truthy (get_property b ''name'')"
    and "\<not> strict_equals (get_property b ''name'') (get_property (users db ! i) ''name'')"
  ultimately show "put_users_id db pid b = (db, [name_cannot_be_changed])"
    by (rule put_users_id_rejected)
next
  fix db' c
  assume r: "put_users_id db pid b = (db', [c])" and c: "status c = 404 \<or> status c = 400"
  show "db' = db"
  proof (cases "array_find (has_id (parseInt pid)) (users db)")
    case None
    with r show ?thesis by (simp add: put_users_id_absent)
  next
    case (Some r')
    obtain i u where "r' = (i, u)" by (cases r')
    with Some r c show ?thesis
      by (auto simp add: put_users_id_def Let_def split: if_splits)
  qed
qed

theorem put_users_id_failure_keeps_directory_witness:
  "put_users_id healthData_initial (utf16 ''999'') \<lparr>own = [''age'' \<mapsto> JInt 31], proto = Object_prototype\<rparr>
     = (healthData_initial, [user_not_found])
   \<and> put_users_id healthData_initial (utf16 ''abc'') \<lparr>own = [''age'' \<mapsto> JInt 31], proto = Object_prototype\<rparr>
     = (healthData_initial, [user_not_found])
   \<and> put_users_id healthData_initial (utf16 ''1'')
        \<lparr>own = [''name'' \<mapsto> JStr ''Someone Else''], proto = Object_prototype\<rparr>
     = (healthData_initial, [name_cannot_be_changed])
   \<and> fst (put_users_id healthData_initial (utf16 ''1'')
        \<lparr>own = [''name'' \<mapsto> JStr ''Someone Else''], proto = Object_prototype\<rparr>)
     = healthData_initial"
proof -
  let ?a = "\<lparr>own = [''age'' \<mapsto> JInt 31], proto = Object_prototype\<rparr>"
  let ?s = "\<lparr>own = [''name'' \<mapsto> JStr ''Someone Else''], proto = Object_prototype\<rparr>"
  have us: "users healthData_initial = [seed_user]"
    by (simp add: initial_eval)
  have sname: "get_property seed_user ''name'' = Some (JStr ''John Doe'')"
    by (simp add: get_property_def seed_user_def)
  have bname: "get_property ?s ''name'' = Some (JStr ''Someone Else'')"
    by (simp add: get_property_def)
  have nan: "parseInt (utf16 ''abc'') = NaN"
    using parseInt_abc by (simp add: parseInt_NaN_iff)
  have one: "put_users_id healthData_initial (utf16 ''999'') ?a = (healthData_initial, [user_not_found])"
    using put_users_id_failure_keeps_directory [of "utf16 ''999''" healthData_initial ?a] us
      seed_has_no_other_id [of "Finite 999"]
    by (simp add: parseInt_999)
  have one': "put_users_id healthData_initial (utf16 ''abc'') ?a = (healthData_initial, [user_not_found])"
    using put_users_id_failure_keeps_directory [of "utf16 ''abc''" healthData_initial ?a] nan
    by blast
  have two: "put_users_id healthData_initial (utf16 ''1'') ?s
      = (healthData_initial, [name_cannot_be_changed])"
    using put_users_id_failure_keeps_directory [of "utf16 ''1''" healthData_initial ?s] us
      seed_has_id_1 sname bname
    by (simp add: parseInt_1)
  have "\<forall>db' c. put_users_id healthData_initial (utf16 ''1'') ?s = (db', [c])
      \<longrightarrow> status c = 404 \<or> status c = 400 \<longrightarrow> db' = healthData_initial"
    using put_users_id_failure_keeps_directory [of "utf16 ''1''" healthData_initial ?s] by blast
  then have "fst (put_users_id healthData_initial (utf16 ''1'') ?s) = healthData_initial"
    using two by (simp add: name_cannot_be_changed_def)
  with one one' two show ?thesis by simp
qed

text \<open>
  The name that the check reads can be inherited. After \<^verbatim>\<open>POST /users\<close> with
  \<^verbatim>\<open>{id: 2}\<close> and \<^verbatim>\<open>PUT /users/2\<close> with \<^verbatim>\<open>{"__proto__": {name: "Ghost"}}\<close>, the second
  record has no name of its own and the body \<^verbatim>\<open>{name: "Ghost"}\<close>, whose name is truthy,
  is answered with status 200 and not with the 400 error.
\<close>

theorem put_users_id_inherited_name:
  "(let db1 = fst (post_users healthData_initial \<lparr>own = [''id'' \<mapsto> JInt 2], proto = Object_prototype\<rparr>);
        db2 = fst (put_users_id db1 (utf16 ''2'')
                \<lparr>own = [''__proto__'' \<mapsto> JObj [(''name'', JStr ''Ghost'')]], proto = Object_prototype\<rparr>);
        (db3, calls) = put_users_id db2 (utf16 ''2'')
                \<lparr>own = [''name'' \<mapsto> JStr ''Ghost''], proto = Object_prototype\<rparr>
    in own (users db2 ! 1) ''name'' = None
       \<and> get_property (users db2 ! 1) ''name'' = Some (JStr ''Ghost'')
       \<and> calls = [\<lparr>status = 200, sent = Send_object (users db3 ! 1)\<rparr>])"
  by (simp add: post_users_def put_users_id_def parseInt_2 healthData_initial_def Let_def
      has_id_def get_property_def Object_assign_def assign_proto_key_def seed_user_def)

text \<open>
  C9, amended. For a request whose identifier finds a record, the answer is the 400 name
  error exactly when the name of the body is truthy and not strictly equal to the name read
  from the record, which is its own name or else the name of its prototype. So a body whose
  name is a falsy value, such as the empty string, is accepted: the answer is the updated
  record with status 200 and the stored name is now that value.
\<close>

theorem put_users_id_name_error_iff_truthy_and_different:
  assumes "i < length (users db)" and "has_id (parseInt pid) (users db ! i)"
    and "\<forall>j < i. \<not> has_id (parseInt pid) (users db ! j)"
  shows "(put_users_id db pid b = (db, [name_cannot_be_changed])
            \<longleftrightarrow> truthy (get_property b ''name'')
                \<and> \<not> strict_equals (get_property b ''name'') (get_property (users db ! i) ''name''))
         \<and> (snd (put_users_id db pid b) = [name_cannot_be_changed]
            \<longleftrightarrow> truthy (get_property b ''name'')
                \<and> \<not> strict_equals (get_property b ''name'') (get_property (users db ! i) ''name''))
         \<and> (\<forall>v. own b ''name'' = Some v \<longrightarrow> \<not> truthy (Some v) \<longrightarrow>
              (let (db', calls) = put_users_id db pid b
               in calls = [\<lparr>status = 200, sent = Send_object (users db' ! i)\<rparr>]
                  \<and> own (users db' ! i) ''name'' = Some v
                  \<and> get_property (users db' ! i) ''name'' = Some v))"
proof -
  let ?u = "users db ! i"
  let ?bad = "truthy (get_property b ''name'')
    \<and> \<not> strict_equals (get_property b ''name'') (get_property ?u ''name'')"
  have f: "array_find (has_id (parseInt pid)) (users db) = Some (i, ?u)"
    using assms by (rule array_find_first)
  have rej: "put_users_id db pid b = (db, [name_cannot_be_changed])" if "?bad"
    using f that by (simp add: put_users_id_rejected)
  have acc: "put_users_id db pid b
      = (db\<lparr>users := (users db)[i := Object_assign ?u b]\<rparr>,
         [\<lparr>status = 200, sent = Send_object (Object_assign ?u b)\<rparr>])"
    if "\<not> ?bad"
    using f that by (intro put_users_id_merged) auto
  have ne: "\<lparr>status = 200, sent = Send_object (Object_assign ?u b)\<rparr> \<noteq> name_cannot_be_changed"
    by (simp add: name_cannot_be_changed_def)
  have a: "put_users_id db pid b = (db, [name_cannot_be_changed]) \<longleftrightarrow> ?bad"
    using rej acc ne by (cases "?bad") auto
  have b: "snd (put_users_id db pid b) = [name_cannot_be_changed] \<longleftrightarrow> ?bad"
    using rej acc ne by (cases "?bad") auto
  have c: "let (db', calls) = put_users_id db pid b
           in calls = [\<lparr>status = 200, sent = Send_object (users db' ! i)\<rparr>]
              \<and> own (users db' ! i) ''name'' = Some v
              \<and> get_property (users db' ! i) ''name'' = Some v"
    if v: "own b ''name'' = Some v" and falsy: "\<not> truthy (Some v)" for v
  proof -
    have "get_property b ''name'' = Some v"
      using v by (rule get_property_own)
    with falsy have "\<not> ?bad" by simp
    moreover have "own (Object_assign ?u b) ''name'' = Some v"
      using v by (simp add: own_Object_assign)
    moreover have "get_property (Object_assign ?u b) ''name'' = Some v"
      using v by (simp add: get_property_Object_assign)
    ultimately show ?thesis
      using acc assms(1) by simp
  qed
  from a b c show ?thesis by blast
qed

theorem put_users_id_name_error_iff_truthy_and_different_witness:
  "(let (db', calls) = put_users_id healthData_initial (utf16 ''1'')
        \<lparr>own = [''name'' \<mapsto> JStr ''''], proto = Object_prototype\<rparr>
    in calls = [\<lparr>status = 200, sent = Send_object (users db' ! 0)\<rparr>]
       \<and> own (users db' ! 0) ''name'' = Some (JStr ''''))
   \<and> own (users healthData_initial ! 0) ''name'' = Some (JStr ''John Doe'')
   \<and> snd (put_users_id healthData_initial (utf16 ''1'')
        \<lparr>own = [''name'' \<mapsto> JStr ''''], proto = Object_prototype\<rparr>) \<noteq> [name_cannot_be_changed]
   \<and> snd (put_users_id healthData_initial (utf16 ''1'')
        \<lparr>own = [''name'' \<mapsto> JStr ''Jane''], proto = Object_prototype\<rparr>) = [name_cannot_be_changed]"
proof -
  let ?e = "\<lparr>own = [''name'' \<mapsto> JStr ''''], proto = Object_prototype\<rparr>"
  let ?j = "\<lparr>own = [''name'' \<mapsto> JStr ''Jane''], proto = Object_prototype\<rparr>"
  have h: "0 < length (users healthData_initial)"
    "has_id (parseInt (utf16 ''1'')) (users healthData_initial ! 0)"
    "\<forall>j < 0. \<not> has_id (parseInt (utf16 ''1'')) (users healthData_initial ! j)"
    using seed_has_id_1 by (simp_all add: healthData_initial_def parseInt_1)
  have s: "own (users healthData_initial ! 0) ''name'' = Some (JStr ''John Doe'')"
    "get_property (users healthData_initial ! 0) ''name'' = Some (JStr ''John Doe'')"
    by (simp_all add: initial_eval get_property_def)
  have g: "get_property ?e ''name'' = Some (JStr '''')" "get_property ?j ''name'' = Some (JStr ''Jane'')"
    by (simp_all add: get_property_def)
  note e = put_users_id_name_error_iff_truthy_and_different
    [where pid = "utf16 ''1''" and i = 0 and db = healthData_initial and b = ?e, OF h]
  note j = put_users_id_name_error_iff_truthy_and_different
    [where pid = "utf16 ''1''" and i = 0 and db = healthData_initial and b = ?j, OF h]
  have 1: "let (db', calls) = put_users_id healthData_initial (utf16 ''1'') ?e
           in calls = [\<lparr>status = 200, sent = Send_object (users db' ! 0)\<rparr>]
              \<and> own (users db' ! 0) ''name'' = Some (JStr '''')"
    using e by (simp split: prod.splits)
  have 2: "snd (put_users_id healthData_initial (utf16 ''1'') ?e) \<noteq> [name_cannot_be_changed]"
    using e g by simp
  have 3: "snd (put_users_id healthData_initial (utf16 ''1'') ?j) = [name_cannot_be_changed]"
    using j s g by simp
  from 1 2 3 s show ?thesis by simp
qed

text \<open>
  C1. The rule that a name cannot be changed, run on the seed record with the body
  \<^verbatim>\<open>{name: ""}\<close>: the name of the body differs from the stored \<^verbatim>\<open>John Doe\<close>, yet the
  answer has status 200 and the stored name is replaced by the empty string. The handler of
  \<^verbatim>\<open>src/index.js\<close> has no such rule at all and replaces the name by \<^verbatim>\<open>Someone Else\<close>.
\<close>

theorem put_users_id_empty_name_changes_name:
  "put_users_id healthData_initial (utf16 ''1'') \<lparr>own = [''name'' \<mapsto> JStr ''''], proto = Object_prototype\<rparr>
     = (\<lparr>users = [seed_user\<lparr>own := (own seed_user)(''name'' \<mapsto> JStr '''')\<rparr>]\<rparr>,
        [\<lparr>status = 200,
          sent = Send_object (seed_user\<lparr>own := (own seed_user)(''name'' \<mapsto> JStr '''')\<rparr>)\<rparr>])
   \<and> own seed_user ''name'' = Some (JStr ''John Doe'')
   \<and> index_put_users_id healthData_initial (utf16 ''1'')
        \<lparr>own = [''name'' \<mapsto> JStr ''Someone Else''], proto = Object_prototype\<rparr>
     = (\<lparr>users = [seed_user\<lparr>own := (own seed_user)(''name'' \<mapsto> JStr ''Someone Else'')\<rparr>]\<rparr>,
        [\<lparr>status = 200,
          sent = Send_object (seed_user\<lparr>own := (own seed_user)(''name'' \<mapsto> JStr ''Someone Else'')\<rparr>)\<rparr>])"
  using seed_has_id_1
  by (simp add: put_users_id_def index_put_users_id_def parseInt_1 healthData_initial_def Let_def
      get_property_def Object_assign_plain)
    (simp add: seed_user_def)

text \<open>
  After the record at position \<open>i\<close> gets an id that is not the parsed identifier, and no
  other record has that identifier, the scan finds no record.
\<close>

lemma no_match_after_id_overwritten:
  assumes "i < length us"
    and "\<forall>j < length us. j \<noteq> i \<longrightarrow> \<not> has_id x (us ! j)"
    and "\<not> has_id x u'"
  shows "array_find (has_id x) (us[i := u']) = None"
proof -
  have "\<not> has_id x y" if "y \<in> set (us[i := u'])" for y
  proof -
    from that obtain j where j: "j < length us" "y = us[i := u'] ! j"
      by (auto simp: in_set_conv_nth)
    show ?thesis
      using j assms(2,3) by (cases "j = i") simp_all
  qed
  then show ?thesis
    by (simp add: array_find_None_iff)
qed

text \<open>
  An id in the body does not always lead to a 404 afterwards: on the seed record the body
  \<^verbatim>\<open>{id: 1}\<close> sent to \<^verbatim>\<open>/users/1\<close> is merged and the record is still found under
  \<^verbatim>\<open>/users/1\<close>; and the body \<^verbatim>\<open>{id: 2, name: "X"}\<close> is answered with the 400 error and
  the id stays 1.
\<close>

theorem put_users_id_same_id_still_found:
  "(let (db', calls) = put_users_id healthData_initial (utf16 ''1'')
        \<lparr>own = [''id'' \<mapsto> JInt 1], proto = Object_prototype\<rparr>
    in calls = [\<lparr>status = 200, sent = Send_object (users db' ! 0)\<rparr>]
       \<and> own (users db' ! 0) ''id'' = Some (JInt 1)
       \<and> get_users_id db' (utf16 ''1'') = (db', [\<lparr>status = 200, sent = Send_object (users db' ! 0)\<rparr>]))
   \<and> put_users_id healthData_initial (utf16 ''1'')
        \<lparr>own = [''id'' \<mapsto> JInt 2, ''name'' \<mapsto> JStr ''X''], proto = Object_prototype\<rparr>
     = (healthData_initial, [name_cannot_be_changed])
   \<and> own (users healthData_initial ! 0) ''id'' = Some (JInt 1)"
  using seed_has_id_1
  by (simp add: put_users_id_def get_users_id_def parseInt_1 healthData_initial_def Let_def
      get_property_def Object_assign_plain has_id_def)
    (simp add: seed_user_def)

text \<open>
  C10, amended. The id is merged like any other field. For a request whose identifier finds
  a record and whose body has an id, the answer is the updated record with status 200 and
  its id is the id of the body (in the documented server when the body has no name that
  violates the rule, in \<^verbatim>\<open>src/index.js\<close> always). When that id is not strictly equal to
  the parsed identifier and no other record has the parsed identifier, getting the user by
  the same path identifier afterwards answers with the 404 error.
\<close>

theorem put_users_id_overwrites_id:
  assumes "i < length (users db)" and "has_id (parseInt pid) (users db ! i)"
    and "\<forall>j < i. \<not> has_id (parseInt pid) (users db ! j)"
    and "own b ''id'' = Some v"
  shows "(\<not> truthy (get_property b ''name'')
            \<or> strict_equals (get_property b ''name'') (get_property (users db ! i) ''name'') \<longrightarrow>
           (let (db', calls) = put_users_id db pid b
            in calls = [\<lparr>status = 200, sent = Send_object (users db' ! i)\<rparr>]
               \<and> own (users db' ! i) ''id'' = Some v
               \<and> (\<not> strict_equals_number (Some v) (parseInt pid)
                    \<and> (\<forall>j < length (users db). j \<noteq> i \<longrightarrow> \<not> has_id (parseInt pid) (users db ! j))
                  \<longrightarrow> get_users_id db' pid = (db', [user_not_found]))))
         \<and> (let (db', calls) = index_put_users_id db pid b
            in calls = [\<lparr>status = 200, sent = Send_object (users db' ! i)\<rparr>]
               \<and> own (users db' ! i) ''id'' = Some v
               \<and> (\<not> strict_equals_number (Some v) (parseInt pid)
                    \<and> (\<forall>j < length (users db). j \<noteq> i \<longrightarrow> \<not> has_id (parseInt pid) (users db ! j))
                  \<longrightarrow> delivered (snd (index_get_users_id db' pid)) = Some user_not_found))"
proof -
  let ?u = "users db ! i"
  let ?u' = "Object_assign ?u b"
  let ?db' = "db\<lparr>users := (users db)[i := ?u']\<rparr>"
  let ?only = "\<not> strict_equals_number (Some v) (parseInt pid)
    \<and> (\<forall>j < length (users db). j \<noteq> i \<longrightarrow> \<not> has_id (parseInt pid) (users db ! j))"
  have f: "array_find (has_id (parseInt pid)) (users db) = Some (i, ?u)"
    using assms(1-3) by (rule array_find_first)
  have new_id: "own ?u' ''id'' = Some v"
    using assms(4) by (simp add: own_Object_assign)
  have at_i: "users ?db' ! i = ?u'"
    using assms(1) by simp
  have gone: "array_find (has_id (parseInt pid)) (users ?db') = None" if "?only"
  proof -
    have "get_property ?u' ''id'' = Some v"
      using new_id by (rule get_property_own)
    with that have "\<not> has_id (parseInt pid) ?u'"
      by (simp add: has_id_def)
    moreover have "\<forall>j < length (users db). j \<noteq> i \<longrightarrow> \<not> has_id (parseInt pid) (users db ! j)"
      using that by blast
    ultimately have "array_find (has_id (parseInt pid)) ((users db)[i := ?u']) = None"
      by (intro no_match_after_id_overwritten [OF assms(1)])
    then show ?thesis by simp
  qed
  have part: "let (db', calls) = put_users_id db pid b
       in calls = [\<lparr>status = 200, sent = Send_object (users db' ! i)\<rparr>]
          \<and> own (users db' ! i) ''id'' = Some v
          \<and> (?only \<longrightarrow> get_users_id db' pid = (db', [user_not_found]))"
    if ok: "\<not> truthy (get_property b ''name'')
      \<or> strict_equals (get_property b ''name'') (get_property ?u ''name'')"
  proof -
    have "put_users_id db pid b = (?db', [\<lparr>status = 200, sent = Send_object ?u'\<rparr>])"
      using f ok by (rule put_users_id_merged)
    moreover have "get_users_id ?db' pid = (?db', [user_not_found])" if "?only"
      using gone [OF that] by (rule get_users_id_absent)
    ultimately show ?thesis
      using at_i new_id by simp
  qed
  have index: "let (db', calls) = index_put_users_id db pid b
       in calls = [\<lparr>status = 200, sent = Send_object (users db' ! i)\<rparr>]
          \<and> own (users db' ! i) ''id'' = Some v
          \<and> (?only \<longrightarrow> delivered (snd (index_get_users_id db' pid)) = Some user_not_found)"
  proof -
    have "index_put_users_id db pid b = (?db', [\<lparr>status = 200, sent = Send_object ?u'\<rparr>])"
      using f by (rule index_put_users_id_merged)
    moreover have "delivered (snd (index_get_users_id ?db' pid)) = Some user_not_found" if "?only"
      using index_get_users_id_absent [OF gone [OF that]] by (simp add: delivered_def)
    ultimately show ?thesis
      using at_i new_id by simp
  qed
  from part index show ?thesis by blast
qed

theorem put_users_id_overwrites_id_witness:
  "(let (db', calls) = put_users_id healthData_initial (utf16 ''1'')
        \<lparr>own = [''id'' \<mapsto> JInt 2], proto = Object_prototype\<rparr>
    in calls = [\<lparr>status = 200, sent = Send_object (users db' ! 0)\<rparr>]
       \<and> own (users db' ! 0) ''id'' = Some (JInt 2)
       \<and> get_users_id db' (utf16 ''1'') = (db', [user_not_found]))
   \<and> (let (db', calls) = index_put_users_id healthData_initial (utf16 ''1'')
        \<lparr>own = [''id'' \<mapsto> JInt 2], proto = Object_prototype\<rparr>
      in own (users db' ! 0) ''id'' = Some (JInt 2)
         \<and> delivered (snd (index_get_users_id db' (utf16 ''1''))) = Some user_not_found)"
proof -
  let ?b = "\<lparr>own = [''id'' \<mapsto> JInt 2], proto = Object_prototype\<rparr>"
  have h: "0 < length (users healthData_initial)"
    "has_id (parseInt (utf16 ''1'')) (users healthData_initial ! 0)"
    "\<forall>j < 0. \<not> has_id (parseInt (utf16 ''1'')) (users healthData_initial ! j)"
    "own ?b ''id'' = Some (JInt 2)"
    using seed_has_id_1 by (simp_all add: healthData_initial_def parseInt_1)
  have s: "\<not> truthy (get_property ?b ''name'')"
    "\<not> strict_equals_number (Some (JInt 2)) (parseInt (utf16 ''1''))"
    "length (users healthData_initial) = 1"
    by (simp_all add: initial_eval get_property_def parseInt_1)
  show ?thesis
    using put_users_id_overwrites_id
      [where pid = "utf16 ''1''" and i = 0 and db = healthData_initial and b = ?b
        and v = "JInt 2", OF h] s
    by (auto simp add: Let_def split: prod.splits)
qed

text \<open>
  Repeating an update is not always idempotent. On the seed record, the body \<^verbatim>\<open>{id: 2}\<close>
  sent to \<^verbatim>\<open>/users/1\<close> is answered with status 200 the first time and with the 404 error
  the second time. The body \<^verbatim>\<open>{"__proto__": null}\<close> is answered with status 200 both
  times, but the first time the record loses its prototype and the second time it gets a
  field named \<^verbatim>\<open>__proto__\<close>, so the second answer and database differ from the first.
\<close>

theorem put_users_id_repeat_differs:
  "(let b = \<lparr>own = [''id'' \<mapsto> JInt 2], proto = Object_prototype\<rparr>;
        (db1, calls1) = put_users_id healthData_initial (utf16 ''1'') b;
        (db2, calls2) = put_users_id db1 (utf16 ''1'') b
    in calls1 = [\<lparr>status = 200, sent = Send_object (users db1 ! 0)\<rparr>]
       \<and> calls2 = [user_not_found])
   \<and> (let b = \<lparr>own = [''__proto__'' \<mapsto> JNull], proto = Object_prototype\<rparr>;
        (db1, calls1) = put_users_id healthData_initial (utf16 ''1'') b;
        (db2, calls2) = put_users_id db1 (utf16 ''1'') b
    in calls1 = [\<lparr>status = 200, sent = Send_object (users db1 ! 0)\<rparr>]
       \<and> calls2 = [\<lparr>status = 200, sent = Send_object (users db2 ! 0)\<rparr>]
       \<and> own (users db1 ! 0) ''__proto__'' = None
       \<and> own (users db2 ! 0) ''__proto__'' = Some JNull
       \<and> db2 \<noteq> db1)"
  using seed_has_id_1
  by (simp add: put_users_id_def parseInt_1 healthData_initial_def Let_def
      get_property_def Object_assign_def assign_proto_key_def has_id_def)
    (auto simp add: seed_user_def dest: fun_cong [where x = "''__proto__''"])

text \<open>
  C8, amended. When an update is answered with status 200 and its body has no field named
  \<^verbatim>\<open>__proto__\<close> and either no id or an id strictly equal to the parsed path identifier,
  the same request on the resulting database gets the same answer and leaves that database
  as it is.
\<close>

theorem put_users_id_idempotent_when_id_kept:
  assumes "put_users_id db pid b = (db1, [c])" and "status c = 200"
    and "own b ''id'' = None \<or> strict_equals_number (own b ''id'') (parseInt pid)"
    and "own b ''__proto__'' = None"
  shows "put_users_id db1 pid b = (db1, [c])"
proof (cases rule: array_find_cases [of "has_id (parseInt pid)" "users db"])
  case absent
  with assms(1,2) show ?thesis
    by (simp add: put_users_id_absent user_not_found_def)
next
  case (present i)
  let ?u = "users db ! i"
  let ?u' = "?u\<lparr>own := own ?u ++ own b\<rparr>"
  let ?bad = "truthy (get_property b ''name'')
    \<and> \<not> strict_equals (get_property b ''name'') (get_property ?u ''name'')"
  have assign: "Object_assign t b = t\<lparr>own := own t ++ own b\<rparr>" for t
    using assms(4) by (rule Object_assign_plain)
  have ok: "\<not> ?bad"
  proof
    assume "?bad"
    with present(4) have "put_users_id db pid b = (db, [name_cannot_be_changed])"
      by (simp add: put_users_id_rejected)
    with assms(1,2) show False
      by (auto simp add: name_cannot_be_changed_def)
  qed
  then have "put_users_id db pid b
      = (db\<lparr>users := (users db)[i := ?u']\<rparr>, [\<lparr>status = 200, sent = Send_object ?u'\<rparr>])"
    using put_users_id_merged [OF present(4), of b] by (auto simp add: assign)
  with assms(1) have db1: "db1 = db\<lparr>users := (users db)[i := ?u']\<rparr>"
    and c: "c = \<lparr>status = 200, sent = Send_object ?u'\<rparr>"
    by simp_all
  have len: "i < length (users db1)" and at_i: "users db1 ! i = ?u'"
    using db1 present(1) by simp_all
  have get_new: "get_property ?u' k = (case own b k of None \<Rightarrow> get_property ?u k | Some w \<Rightarrow> Some w)"
    for k
    by (simp add: get_property_def map_add_def split: option.splits)
  have id_kept: "has_id (parseInt pid) ?u'"
    using assms(3) present(2) by (auto simp add: has_id_def get_new split: option.splits)
  have before: "\<forall>j < i. \<not> has_id (parseInt pid) (users db1 ! j)"
    using db1 present(3) by simp
  have f1: "array_find (has_id (parseInt pid)) (users db1) = Some (i, ?u')"
    using array_find_first [OF len _ before] at_i id_kept by simp
  have ok1: "\<not> truthy (get_property b ''name'')
      \<or> strict_equals (get_property b ''name'') (get_property ?u' ''name'')"
  proof (cases "truthy (get_property b ''name'')")
    case False
    then show ?thesis by simp
  next
    case True
    with ok have eq: "strict_equals (get_property b ''name'') (get_property ?u ''name'')"
      by simp
    show ?thesis
    proof (cases "own b ''name''")
      case None
      with eq show ?thesis by (simp add: get_new)
    next
      case (Some w)
      then have "get_property b ''name'' = Some w"
        by (rule get_property_own)
      with eq have "strict_equals (Some w) (Some w)"
        by (auto intro: strict_equals_refl_if_equal)
      with Some \<open>get_property b ''name'' = Some w\<close> show ?thesis
        by (simp add: get_new)
    qed
  qed
  have "put_users_id db1 pid b
      = (db1\<lparr>users := (users db1)[i := Object_assign ?u' b]\<rparr>,
         [\<lparr>status = 200, sent = Send_object (Object_assign ?u' b)\<rparr>])"
    using f1 ok1 by (rule put_users_id_merged)
  moreover have "Object_assign ?u' b = ?u'"
  proof -
    have "(own ?u ++ own b) ++ own b = own ?u ++ own b"
      by (simp add: map_add_def fun_eq_iff split: option.splits)
    then show ?thesis
      by (simp add: assign)
  qed
  moreover have "db1\<lparr>users := (users db1)[i := ?u']\<rparr> = db1"
    using db1 by simp
  ultimately show ?thesis
    using c by simp
qed

theorem put_users_id_idempotent_when_id_kept_witness:
  "(let b = \<lparr>own = [''age'' \<mapsto> JInt 31], proto = Object_prototype\<rparr>;
        u = seed_user\<lparr>own := (own seed_user)(''age'' \<mapsto> JInt 31)\<rparr>
    in put_users_id healthData_initial (utf16 ''1'') b
         = (\<lparr>users = [u]\<rparr>, [\<lparr>status = 200, sent = Send_object u\<rparr>])
       \<and> put_users_id \<lparr>users = [u]\<rparr> (utf16 ''1'') b
         = (\<lparr>users = [u]\<rparr>, [\<lparr>status = 200, sent = Send_object u\<rparr>]))"
proof -
  let ?b = "\<lparr>own = [''age'' \<mapsto> JInt 31], proto = Object_prototype\<rparr>"
  let ?u = "seed_user\<lparr>own := (own seed_user)(''age'' \<mapsto> JInt 31)\<rparr>"
  let ?c = "\<lparr>status = 200, sent = Send_object ?u\<rparr>"
  have first: "put_users_id healthData_initial (utf16 ''1'') ?b = (\<lparr>users = [?u]\<rparr>, [?c])"
    using seed_has_id_1
    by (simp add: put_users_id_def parseInt_1 healthData_initial_def Let_def
        get_property_def Object_assign_plain)
  have "status ?c = 200"
    and "own ?b ''id'' = None \<or> strict_equals_number (own ?b ''id'') (parseInt (utf16 ''1''))"
    and "own ?b ''__proto__'' = None"
    by simp_all
  with first have "put_users_id \<lparr>users = [?u]\<rparr> (utf16 ''1'') ?b = (\<lparr>users = [?u]\<rparr>, [?c])"
    by (rule put_users_id_idempotent_when_id_kept)
  with first show ?thesis by (simp add: Let_def)
qed

section \<open>The second send of \<^verbatim>\<open>src/index.js\<close>\<close>

text \<open>
  When no record has the parsed identifier, the handler of the documented server sends the
  404 error and nothing else, and the handler of \<^verbatim>\<open>src/index.js\<close> goes on to send
  \<^verbatim>\<open>undefined\<close> with status 200.
\<close>

lemma get_users_id_responds_once:
  assumes "\<forall>u \<in> set (users db). \<not> has_id (parseInt pid) u"
  shows "get_users_id db pid = (db, [user_not_found])"
  using assms by (intro get_users_id_absent) (simp add: array_find_None_iff)

lemma index_get_users_id_responds_twice:
  assumes "\<forall>u \<in> set (users db). \<not> has_id (parseInt pid) u"
  shows "index_get_users_id db pid = (db, [user_not_found, \<lparr>status = 200, sent = Send_undefined\<rparr>])"
  using assms by (intro index_get_users_id_absent) (simp add: array_find_None_iff)

text \<open>
  C2. On the seed directory, \<^verbatim>\<open>GET /users/999\<close> handled by \<^verbatim>\<open>src/index.js\<close>: the 404
  error is sent, and then a second send with status 200 is attempted. The documented server
  sends the 404 error only.
\<close>

theorem index_get_users_id_sends_twice:
  "index_get_users_id healthData_initial (utf16 ''999'')
     = (healthData_initial, [user_not_found, \<lparr>status = 200, sent = Send_undefined\<rparr>])
   \<and> get_users_id healthData_initial (utf16 ''999'') = (healthData_initial, [user_not_found])"
  using seed_has_no_other_id [of "Finite 999"]
  by (simp add: index_get_users_id_def get_users_id_def Let_def healthData_initial_def
      parseInt_999)

end
